theory Spec2Isabelle
  imports Main "HOL-Library.AList"
begin

section \<open>JavaScript values\<close>

text \<open>
  Plain JavaScript data: the panel's \<open>options\<close> and the \<open>defaults\<close> of its field
  configuration are objects whose keys are not fixed by the menu code. An object is an
  association list in insertion order; an absent key reads as \<open>undefined\<close>.
\<close>

datatype jsval =
    JUndefined
  | JNull
  | JBool bool
  | JNum int
  | JStr string
  | JObj "(string \<times> jsval) list"

type_synonym jsobj = "(string \<times> jsval) list"

definition js_get :: "jsobj \<Rightarrow> string \<Rightarrow> jsval" where
  \<comment> \<open>\<open>obj.k\<close> on an object\<close>
  "js_get obj k = (case map_of obj k of None \<Rightarrow> JUndefined | Some v \<Rightarrow> v)"

fun optional_get :: "jsval \<Rightarrow> string \<Rightarrow> jsval" where
  \<comment> \<open>\<open>v?.k\<close>: \<open>undefined\<close> on \<open>undefined\<close> and \<open>null\<close>; a primitive has no such property\<close>
  "optional_get (JObj obj) k = js_get obj k"
| "optional_get v k = JUndefined"

fun spread :: "jsval \<Rightarrow> jsobj" where
  \<comment> \<open>\<open>{...v}\<close>: the own properties of an object, nothing for \<open>undefined\<close>, \<open>null\<close>, a
      boolean or a number (the declared type of \<open>custom\<close> is an object or \<open>undefined\<close>)\<close>
  "spread (JObj obj) = obj"
| "spread v = []"

datatype error = Error string

definition t :: "string \<Rightarrow> string \<Rightarrow> string" where
  \<comment> \<open>Modelled from the spec: the i18n lookup \<open>t(key, default)\<close> of \<open>@grafana/i18n\<close> is not
      in the source. The spec names every entry by its default text, so the lookup is taken
      in the default locale, where it returns the default text.\<close>
  "t key dflt = dflt"

section \<open>Panel, dashboard and collaborators\<close>

record FieldConfigSource =
  defaults :: jsobj
  overrides :: "jsval list"

record VizPanelState =
  pluginId :: string
  title :: string
  options :: jsobj
  fieldConfig :: FieldConfigSource

record DataSourceRef =
  ds_type :: "string option"
  uid :: "string option"

record DataQuery =
  refId :: string
  datasource :: "DataSourceRef option"

record QueryRunnerState =
  queries :: "DataQuery list option"
  timeRange :: "string option"
  timeZone :: "string option"

record DashboardMeta =
  isEmbedded :: bool
  folderUid :: "string option"

record DashboardSceneState =
  meta :: DashboardMeta
  editPanel :: bool
  editable :: bool
  viewPanelScene :: bool
  dash_uid :: string
  dash_title :: string
  tags :: "string list option"

datatype PluginExtensionTypes = TypeLink | TypeComponent | TypeFunction

record PluginExtension =
  ext_type :: PluginExtensionTypes
  ext_id :: string
  ext_title :: string
  ext_description :: string
  ext_path :: "string option"
  ext_category :: "string option"

record PluginExtensionPanelContext =
  ctx_id :: int
  ctx_pluginId :: string
  ctx_title :: string
  ctx_timeRange :: "string option"
  ctx_timeZone :: string
  ctx_dashboard_uid :: string
  ctx_dashboard_title :: string
  ctx_dashboard_tags :: "string list"
  ctx_targets :: "DataQuery list"

record CreateAlertArgs =
  datasources :: "string list"
  arg_dashboard_uid :: string
  arg_dashboard_title :: string
  arg_dashboard_editable :: bool
  arg_dashboard_folderUID :: "string option"
  arg_panel_id :: int
  arg_panel_targets :: "DataQuery list"
  arg_panel_type :: string
  arg_panel_title :: string
  arg_panel_pluginVersion :: string

record Location =
  pathname :: string
  search :: string

record LinkModel =
  link_title :: string
  link_href :: string

datatype InspectTab = Data | Query | JSON

datatype UrlPartial =
    ViewPanel string
    \<comment> \<open>\<open>{ viewPanel: pathId, editPanel: undefined }\<close>\<close>
  | Inspect int InspectTab
    \<comment> \<open>\<open>{ inspect: panelId, inspectTab: tab }\<close>\<close>

section \<open>Menu entries\<close>

text \<open>
  The click handlers are the closures of the source, one constructor each; what a handler
  does when it is run is \<open>run_handler\<close> below. \<open>ExtensionClick\<close> stands for a handler that
  \<open>createExtensionSubMenu\<close> attached to one of its entries.
\<close>

datatype handler =
    ViewClick
  | EditClick
  | ShareClick
  | ExploreClick
  | InspectClick InspectTab
  | ExitFullscreenClick
  | ConvertToTableClick
  | DuplicateClick
  | CopyClick
  | UnlinkLibraryPanelClick
  | CreateLibraryPanelClick
  | PanelTimeOverrideClick
  | RemoveClick
  | RemoveConfirm
  | NewAlertRuleClick
  | ExtensionClick string

record ItemProps =
  "text" :: string
  iconClassName :: "string option"
  shortcut :: "string option"
  href :: "string option"
  onClick :: "handler option"
  tooltip :: "string option"
  target :: "string option"
  tabindex :: "int option"

text \<open>
  A \<open>PanelMenuItem\<close> is its scalar properties and its optional \<open>subMenu\<close>. The source
  stores in \<open>subMenu\<close> either an array of items or, for the panel links entry, a
  \<open>VizPanelLinksMenu\<close> object built from the raw links.
\<close>

datatype PanelMenuItem = PanelMenuItem (props: ItemProps) (subMenu: "SubMenu option")
  and SubMenu = MenuItems "PanelMenuItem list" | VizPanelLinksMenu "LinkModel list"

definition blank :: ItemProps where
  \<comment> \<open>an object literal with no property set but the (required) text\<close>
  "blank = \<lparr>text = [], iconClassName = None, shortcut = None, href = None, onClick = None,
     tooltip = None, target = None, tabindex = None\<rparr>"

text \<open>
  What the menu code reads when the menu is opened. The results of the collaborators that
  are not part of the source are fields: a promise is its settled result (\<open>Inl\<close> a
  rejection), a synchronous helper is a function or its value.
\<close>

record Env =
  panel :: VizPanelState
  panelId :: int
  pathId :: string
  pluginVersion :: "string option"
  queryRunner :: "QueryRunnerState option"
  isLibraryPanel :: bool
  isRepeatCloneOrChildOf :: bool
  dashboard :: DashboardSceneState
  canEditDashboard :: bool
  hasAccessToExplore :: bool
  tryGetExploreUrlForPanel :: "error + string option"
  extensions :: "PluginExtension list"
  createExtensionSubMenu ::
    "PluginExtension list \<Rightarrow> PluginExtensionPanelContext \<Rightarrow> string \<Rightarrow> PanelMenuItem list"
  getCreateAlertInMenuAvailability :: "CreateAlertArgs \<Rightarrow> error + bool"
  linksSupplier :: "(string \<Rightarrow> LinkModel list) option"
  getTimeZone :: "string option \<Rightarrow> string"
  location :: Location
  getUrlForPartial :: "Location \<Rightarrow> UrlPartial \<Rightarrow> string"
  getEditPanelUrl :: "int \<Rightarrow> string"

section \<open>The menu builder\<close>

subsection \<open>The explore entry\<close>

datatype call = TryGetExploreUrlForPanel | GetCreateAlertInMenuAvailability CreateAlertArgs

definition exploreItem :: "string \<Rightarrow> PanelMenuItem" where
  "exploreItem exploreUrl = PanelMenuItem
     (blank\<lparr>text := t ''panel.header-menu.explore'' ''Explore'', iconClassName := Some ''compass'',
        shortcut := Some ''x'', href := Some exploreUrl, onClick := Some ExploreClick\<rparr>) None"

text \<open>
  \<open>getExploreMenuItem\<close>: the awaited calls made, in order, and the settled result. The
  URL is fetched only with access to Explore; a rejected fetch rejects the whole call;
  \<open>!exploreUrl\<close> holds of \<open>undefined\<close> and of the empty string.
\<close>

definition getExploreMenuItem :: "Env \<Rightarrow> call list \<times> (error + PanelMenuItem option)" where
  "getExploreMenuItem e =
     (if \<not> hasAccessToExplore e then ([], Inr None)
      else case tryGetExploreUrlForPanel e of
          Inl err \<Rightarrow> ([TryGetExploreUrlForPanel], Inl err)
        | Inr None \<Rightarrow> ([TryGetExploreUrlForPanel], Inr None)
        | Inr (Some exploreUrl) \<Rightarrow>
            ([TryGetExploreUrlForPanel],
             if exploreUrl = [] then Inr None else Inr (Some (exploreItem exploreUrl))))"

subsection \<open>Data sources of the panel\<close>

fun collect_uids :: "DataQuery list \<Rightarrow> string list \<Rightarrow> string list" where
  \<comment> \<open>the \<open>for\<close> loop of \<open>getDataSources\<close>, pushing onto \<open>result\<close>\<close>
  "collect_uids [] result = result"
| "collect_uids (query # rest) result =
     (case datasource query of
        None \<Rightarrow> collect_uids rest result
      | Some ds \<Rightarrow>
          (case uid ds of
             None \<Rightarrow> collect_uids rest result
           | Some u \<Rightarrow> if u = [] then collect_uids rest result else collect_uids rest (result @ [u])))"

fun set_spread :: "string list \<Rightarrow> string list \<Rightarrow> string list" where
  \<comment> \<open>\<open>[...new Set(result)]\<close>: first occurrences, in insertion order\<close>
  "set_spread seen [] = seen"
| "set_spread seen (x # xs) = (if x \<in> set seen then set_spread seen xs else set_spread (seen @ [x]) xs)"

definition getDataSources :: "Env \<Rightarrow> string list" where
  "getDataSources e =
     (case queryRunner e of
        None \<Rightarrow> []
      | Some qr \<Rightarrow>
          (let qs = (case queries qr of None \<Rightarrow> [] | Some qs \<Rightarrow> qs)
           in set_spread [] (collect_uids qs [])))"

definition panel_queries :: "Env \<Rightarrow> DataQuery list" where
  \<comment> \<open>\<open>panelQueryRunner?.state.queries\<close> with its fallback \<open>[]\<close>\<close>
  "panel_queries e =
     (case queryRunner e of None \<Rightarrow> [] | Some qr \<Rightarrow> (case queries qr of None \<Rightarrow> [] | Some qs \<Rightarrow> qs))"

definition createAlertArgs :: "Env \<Rightarrow> CreateAlertArgs" where
  "createAlertArgs e =
     \<lparr>datasources = getDataSources e,
      arg_dashboard_uid = dash_uid (dashboard e),
      arg_dashboard_title = dash_title (dashboard e),
      arg_dashboard_editable = editable (dashboard e),
      arg_dashboard_folderUID = folderUid (meta (dashboard e)),
      arg_panel_id = panelId e,
      arg_panel_targets = panel_queries e,
      arg_panel_type = pluginId (panel e),
      arg_panel_title = title (panel e),
      arg_panel_pluginVersion = (case pluginVersion e of None \<Rightarrow> ''8.0.0'' | Some v \<Rightarrow> v)\<rparr>"

subsection \<open>The entries\<close>

definition isEditingPanel :: "Env \<Rightarrow> bool" where
  "isEditingPanel e = editPanel (dashboard e)"

definition viewItem :: "Env \<Rightarrow> PanelMenuItem" where
  "viewItem e = PanelMenuItem
     (blank\<lparr>text := t ''panel.header-menu.view'' ''View'', iconClassName := Some ''eye'',
        shortcut := Some ''v'',
        href := Some (getUrlForPartial e (location e) (ViewPanel (pathId e))),
        onClick := Some ViewClick\<rparr>) None"

definition editItem :: "Env \<Rightarrow> PanelMenuItem" where
  "editItem e = PanelMenuItem
     (blank\<lparr>text := t ''panel.header-menu.edit'' ''Edit'', iconClassName := Some ''edit'',
        shortcut := Some ''e'', href := Some (getEditPanelUrl e (panelId e)),
        onClick := Some EditClick\<rparr>) None"

definition shareItem :: PanelMenuItem where
  "shareItem = PanelMenuItem
     (blank\<lparr>text := t ''panel.header-menu.share'' ''Share'', iconClassName := Some ''share-alt'',
        shortcut := Some ''p s'', onClick := Some ShareClick\<rparr>) None"

definition inspectorSubMenu :: "Env \<Rightarrow> PanelMenuItem list" where
  "inspectorSubMenu e =
     [PanelMenuItem
        (blank\<lparr>text := t ''panel.header-menu.inspect-data'' ''Data'',
           href := Some (getUrlForPartial e (location e) (Inspect (panelId e) Data)),
           onClick := Some (InspectClick Data)\<rparr>) None,
      PanelMenuItem
        (blank\<lparr>text := t ''panel.header-menu.inspect-query'' ''Query'',
           href := Some (getUrlForPartial e (location e) (Inspect (panelId e) Query)),
           onClick := Some (InspectClick Query)\<rparr>) None,
      PanelMenuItem
        (blank\<lparr>text := t ''panel.header-menu.inspect-json'' ''Panel JSON'',
           href := Some (getUrlForPartial e (location e) (Inspect (panelId e) JSON)),
           onClick := Some (InspectClick JSON)\<rparr>) None]"

definition inspectItem :: "Env \<Rightarrow> PanelMenuItem" where
  "inspectItem e = PanelMenuItem
     (blank\<lparr>text := t ''panel.header-menu.inspect'' ''Inspect'', iconClassName := Some ''info-circle'',
        shortcut := Some ''i''\<rparr>) (Some (MenuItems (inspectorSubMenu e)))"

definition exitFullscreenItem :: PanelMenuItem where
  "exitFullscreenItem = PanelMenuItem
     (blank\<lparr>text := t ''panel.header-menu.view-panel-fullscreen'' ''Exit fullscreen'',
        iconClassName := Some ''arrow-left'', onClick := Some ExitFullscreenClick\<rparr>) None"

definition convertToTableItem :: PanelMenuItem where
  "convertToTableItem = PanelMenuItem
     (blank\<lparr>text := t ''panel.header-menu.pie-chart-to-table'' ''Convert to table'',
        iconClassName := Some ''table'', onClick := Some ConvertToTableClick\<rparr>) None"

definition duplicateItem :: PanelMenuItem where
  "duplicateItem = PanelMenuItem
     (blank\<lparr>text := t ''panel.header-menu.duplicate'' ''Duplicate'', iconClassName := Some ''copy'',
        shortcut := Some ''p d'', onClick := Some DuplicateClick\<rparr>) None"

definition copyItem :: PanelMenuItem where
  "copyItem = PanelMenuItem
     (blank\<lparr>text := t ''panel.header-menu.copy'' ''Copy'', iconClassName := Some ''clipboard-alt'',
        onClick := Some CopyClick\<rparr>) None"

definition unlinkItem :: PanelMenuItem where
  "unlinkItem = PanelMenuItem
     (blank\<lparr>text := t ''panel.header-menu.unlink-library-panel'' ''Unlink library panel'',
        iconClassName := Some ''unlink'', onClick := Some UnlinkLibraryPanelClick\<rparr>) None"

definition createLibraryPanelItem :: PanelMenuItem where
  "createLibraryPanelItem = PanelMenuItem
     (blank\<lparr>text := t ''panel.header-menu.create-library-panel'' ''Create library panel'',
        iconClassName := Some ''library-panel'', onClick := Some CreateLibraryPanelClick\<rparr>) None"

definition panelTimeOverrideItem :: PanelMenuItem where
  "panelTimeOverrideItem = PanelMenuItem
     (blank\<lparr>text := t ''panel.header-menu.panel-time-override'' ''Panel time override'',
        iconClassName := Some ''clock-nine'', onClick := Some PanelTimeOverrideClick\<rparr>) None"

definition panelLinksItem :: "LinkModel list \<Rightarrow> PanelMenuItem" where
  "panelLinksItem links = PanelMenuItem
     (blank\<lparr>text := t ''panel.header-menu.panel-links'' ''Panel links'',
        iconClassName := Some ''external-link-alt''\<rparr>) (Some (VizPanelLinksMenu links))"

definition removeItem :: PanelMenuItem where
  \<comment> \<open>"No text, just icon"\<close>
  "removeItem = PanelMenuItem
     (blank\<lparr>text := [], iconClassName := Some ''times'',
        tooltip := Some (t ''panel.header-menu.remove-panel'' ''Remove this panel''),
        onClick := Some RemoveClick\<rparr>) None"

definition newAlertRuleItem :: PanelMenuItem where
  "newAlertRuleItem = PanelMenuItem
     (blank\<lparr>text := t ''panel.header-menu.new-alert-rule'' ''New alert rule'',
        iconClassName := Some ''bell'', onClick := Some NewAlertRuleClick\<rparr>) None"

definition getHelpItem :: PanelMenuItem where
  "getHelpItem = PanelMenuItem
     (blank\<lparr>text := t ''panel.header-menu.get-help'' ''Get help'',
        iconClassName := Some ''question-circle'',
        href := Some ''https://grafana.com/docs/grafana/latest/panels-visualizations/'',
        target := Some ''_blank''\<rparr>) None"

definition moreItem :: "PanelMenuItem list \<Rightarrow> PanelMenuItem" where
  "moreItem moreSubMenu = PanelMenuItem
     (blank\<lparr>text := t ''panel.header-menu.more'' ''More...'', iconClassName := Some ''cube'',
        tabindex := Some (- 1)\<rparr>) (Some (MenuItems moreSubMenu))"

subsection \<open>Plugin extension links\<close>

definition linkExtensions :: "Env \<Rightarrow> PluginExtension list" where
  \<comment> \<open>the two \<open>filter\<close>s and \<open>slice(0, 3)\<close>; a string is truthy when it is not empty\<close>
  "linkExtensions e =
     take 3
       (filter (\<lambda>extension. ext_title extension \<noteq> [] \<and> ext_description extension \<noteq> [])
          (filter (\<lambda>extension. ext_type extension = TypeLink) (extensions e)))"

definition extension_context :: "Env \<Rightarrow> PluginExtensionPanelContext" where
  "extension_context e =
     \<lparr>ctx_id = panelId e,
      ctx_pluginId = pluginId (panel e),
      ctx_title = title (panel e),
      ctx_timeRange = (case queryRunner e of None \<Rightarrow> None | Some qr \<Rightarrow> timeRange qr),
      ctx_timeZone = getTimeZone e (case queryRunner e of None \<Rightarrow> None | Some qr \<Rightarrow> timeZone qr),
      ctx_dashboard_uid = dash_uid (dashboard e),
      ctx_dashboard_title = dash_title (dashboard e),
      ctx_dashboard_tags = (case tags (dashboard e) of None \<Rightarrow> [] | Some ts \<Rightarrow> ts),
      ctx_targets = panel_queries e\<rparr>"

definition extensionSubMenu :: "Env \<Rightarrow> PanelMenuItem list" where
  "extensionSubMenu e = createExtensionSubMenu e (linkExtensions e) (extension_context e) ''top''"

subsection \<open>The three arrays\<close>

text \<open>
  The source pushes onto \<open>items\<close>, \<open>subMenu\<close> and \<open>moreSubMenu\<close> in turn and reads none of
  them before the end, so each array is the concatenation of its pushes in source order.
\<close>

definition panel_links :: "Env \<Rightarrow> LinkModel list" where
  \<comment> \<open>\<open>linksSupplier?.getLinks(panel.state.pluginId) ?? []\<close>\<close>
  "panel_links e = (case linksSupplier e of None \<Rightarrow> [] | Some getLinks \<Rightarrow> getLinks (pluginId (panel e)))"

definition pieChartDisplayOptions :: "Env \<Rightarrow> jsval" where
  \<comment> \<open>\<open>panel.state.options?.legend?.displayMode\<close>\<close>
  "pieChartDisplayOptions e = optional_get (js_get (options (panel e)) ''legend'') ''displayMode''"

definition moreSubMenu_pushes :: "Env \<Rightarrow> bool \<Rightarrow> PanelMenuItem list" where
  \<comment> \<open>\<open>moreSubMenu\<close> when the test \<open>moreSubMenu.length > 0\<close> is reached\<close>
  "moreSubMenu_pushes e canCreateAlertRule =
     (if pluginId (panel e) = ''piechart'' \<and> pieChartDisplayOptions e = JStr ''table''
      then [convertToTableItem] else [])
     @ (if canEditDashboard e \<and> \<not> isRepeatCloneOrChildOf e then [duplicateItem, copyItem] else [])
     @ (if isLibraryPanel e
        then (if canEditDashboard e then [unlinkItem] else [])
        else (if hasAccessToExplore e \<and> \<not> (pluginId (panel e) = ''timeseries'')
              then [createLibraryPanelItem] else []))
     @ [panelTimeOverrideItem]
     @ (if length (panel_links e) > 0 then [panelLinksItem (panel_links e)] else [])
     @ (if canCreateAlertRule \<and> \<not> isRepeatCloneOrChildOf e then [newAlertRuleItem] else [])"

definition moreSubMenu_of :: "Env \<Rightarrow> bool \<Rightarrow> PanelMenuItem list" where
  \<comment> \<open>\<open>moreSubMenu\<close> at the end\<close>
  "moreSubMenu_of e canCreateAlertRule =
     (let moreSubMenu = moreSubMenu_pushes e canCreateAlertRule
      in if length moreSubMenu > 0 then moreSubMenu @ [getHelpItem] else moreSubMenu)"

definition subMenu_of :: "Env \<Rightarrow> PanelMenuItem option \<Rightarrow> bool \<Rightarrow> PanelMenuItem list" where
  "subMenu_of e exploreMenuItem canCreateAlertRule =
     [shareItem]
     @ (case exploreMenuItem of None \<Rightarrow> [] | Some item \<Rightarrow> [item])
     @ [inspectItem e]
     @ (if length (extensionSubMenu e) > 0 then extensionSubMenu e else [])
     @ (if length (moreSubMenu_pushes e canCreateAlertRule) > 0
        then [moreItem (moreSubMenu_of e canCreateAlertRule)] else [])"

definition items_of :: "Env \<Rightarrow> PanelMenuItem option \<Rightarrow> bool \<Rightarrow> PanelMenuItem list" where
  "items_of e exploreMenuItem canCreateAlertRule =
     (if \<not> isEditingPanel e then [viewItem e] else [])
     @ (if canEditDashboard e \<and> editable (dashboard e) \<and> \<not> isRepeatCloneOrChildOf e \<and> \<not> isEditingPanel e
        then [editItem e] else [])
     @ (if viewPanelScene (dashboard e) then [exitFullscreenItem] else [])
     @ (if \<not> isEditingPanel e \<and> canEditDashboard e \<and> \<not> isRepeatCloneOrChildOf e
        then [removeItem] else [])
     @ subMenu_of e exploreMenuItem canCreateAlertRule"

subsection \<open>Activation\<close>

text \<open>
  \<open>asyncFunc\<close>: the awaited calls made, in order, and how the function settles: \<open>Inl\<close> a
  rejection, \<open>Inr None\<close> a return without \<open>menu.setState\<close>, \<open>Inr (Some items)\<close> a return
  after \<open>menu.setState({ items })\<close>.
\<close>

definition asyncFunc :: "Env \<Rightarrow> call list \<times> (error + PanelMenuItem list option)" where
  "asyncFunc e =
     (case getExploreMenuItem e of
        (calls, Inl err) \<Rightarrow> (calls, Inl err)
      | (calls, Inr exploreMenuItem) \<Rightarrow>
          if isEmbedded (meta (dashboard e)) then
            (calls, Inr (case exploreMenuItem of None \<Rightarrow> None | Some item \<Rightarrow> Some [item]))
          else
            (let args = createAlertArgs e;
                 calls' = calls @ [GetCreateAlertInMenuAvailability args]
             in case getCreateAlertInMenuAvailability e args of
                  Inl err \<Rightarrow> (calls', Inl err)
                | Inr canCreateAlertRule \<Rightarrow>
                    (calls', Inr (Some (items_of e exploreMenuItem canCreateAlertRule)))))"

record VizPanelMenuState =
  items :: "PanelMenuItem list option"

record Runtime =
  menu :: VizPanelMenuState
  console_errors :: "error list"

definition panelMenuBehavior :: "Env \<Rightarrow> Runtime \<Rightarrow> Runtime" where
  \<comment> \<open>the menu's state after the activation, and what \<open>console.error\<close> was given\<close>
  "panelMenuBehavior e r =
     (case snd (asyncFunc e) of
        Inl err \<Rightarrow> r\<lparr>console_errors := console_errors r @ [err]\<rparr>
      | Inr None \<Rightarrow> r
      | Inr (Some its) \<Rightarrow> r\<lparr>menu := (menu r)\<lparr>items := Some its\<rparr>\<rparr>)"

section \<open>Click handlers\<close>

text \<open>
  A handler runs later, on a click, against the state of that moment. Calls into other
  subsystems (telemetry, modals, navigation, notifications, dashboard operations) are
  recorded in \<open>effects\<close>, in order. \<open>SaveAndUpdate\<close> records the call
  \<open>dashboard.saveAndUpdate()\<close>; that method is not in the source, and what the dashboard
  does with the callbacks it holds is left open. \<open>onSaveCompleted\<close> and \<open>onSaveError\<close> are
  the two callback properties of the dashboard that the source assigns.
\<close>

datatype modal = ShareDrawer | PanelInspectDrawer InspectTab | UnlinkLibraryPanelModal | PanelTimeRangeDrawer

record ShowConfirmModalEvent =
  confirm_title :: string
  confirm_text :: string
  confirm_text2 :: string
  yesText :: string
  confirm_icon :: string
  onConfirm :: handler

datatype effect =
    PanelActionClicked string int string
  | ShowModal modal
  | LocationPartialViewPanelNull
  | LocationPush string
  | DuplicatePanel
  | CopyPanel
  | CreateLibraryPanel
  | RemovePanel
  | Publish ShowConfirmModalEvent
  | NotifyError string string
  | SaveAndUpdate
  | ExtensionHandler string

datatype callback = OnSuccess | OnError

record World =
  panel_state :: VizPanelState
  panel_id :: int
  isDirty :: bool
  onSaveCompleted :: "callback option"
  onSaveError :: "callback option"
  current_location :: Location
  ruleFormValues :: string
  renderUrl :: "string \<Rightarrow> (string \<times> string) list \<Rightarrow> string"
  getMessageFromError :: "error \<Rightarrow> string"
  effects :: "effect list"

definition emit :: "effect \<Rightarrow> World \<Rightarrow> World" where
  "emit x w = w\<lparr>effects := effects w @ [x]\<rparr>"

definition panelActionClicked :: "string \<Rightarrow> string \<Rightarrow> World \<Rightarrow> World" where
  \<comment> \<open>\<open>DashboardInteractions.panelActionClicked(item, getPanelIdForVizPanel(panel), source)\<close>\<close>
  "panelActionClicked item source w = emit (PanelActionClicked item (panel_id w) source) w"

definition convertPieChartToTable :: "World \<Rightarrow> World" where
  "convertPieChartToTable w =
     (let st = panel_state w;
          fc = fieldConfig st;
          custom' = AList.update ''displayMode'' (JStr ''auto'') (spread (js_get (defaults fc) ''custom''));
          defaults' = AList.update ''custom'' (JObj custom') (defaults fc);
          st' = st\<lparr>pluginId := ''table'',
                   options := AList.update ''legend'' JUndefined (options st),
                   fieldConfig := fc\<lparr>defaults := defaults'\<rparr>\<rparr>
      in panelActionClicked ''convert-to-table'' ''panel'' (w\<lparr>panel_state := st'\<rparr>))"

definition onSuccess :: "World \<Rightarrow> World" where
  \<comment> \<open>\<open>ruleFormValues w\<close> is \<open>JSON.stringify(scenesPanelToRuleFormValues(panel, dashboard))\<close>\<close>
  "onSuccess w =
     emit (LocationPush (renderUrl w ''/alerting/new/alerting''
             [(''defaults'', ruleFormValues w),
              (''returnTo'', pathname (current_location w) @ search (current_location w))])) w"



definition inspect_action :: "InspectTab \<Rightarrow> string" where
  "inspect_action tab = (case tab of Data \<Rightarrow> ''inspect-data'' | Query \<Rightarrow> ''inspect-query'' | JSON \<Rightarrow> ''inspect-json'')"

fun run_handler :: "handler \<Rightarrow> World \<Rightarrow> World" where
  "run_handler ViewClick w = panelActionClicked ''view'' ''panel'' w"
| "run_handler EditClick w = panelActionClicked ''edit'' ''panel'' w"
| "run_handler ShareClick w = emit (ShowModal ShareDrawer) (panelActionClicked ''share'' ''panel'' w)"
| "run_handler ExploreClick w = panelActionClicked ''explore'' ''panel'' w"
| "run_handler (InspectClick tab) w =
     emit (ShowModal (PanelInspectDrawer tab)) (panelActionClicked (inspect_action tab) ''panel-menu-inspect'' w)"
| "run_handler ExitFullscreenClick w =
     emit LocationPartialViewPanelNull (panelActionClicked ''view-panel-fullscreen'' ''panel'' w)"
| "run_handler ConvertToTableClick w = convertPieChartToTable w"
| "run_handler DuplicateClick w = emit DuplicatePanel (panelActionClicked ''duplicate'' ''panel'' w)"
| "run_handler CopyClick w = emit CopyPanel (panelActionClicked ''copy'' ''panel'' w)"
| "run_handler UnlinkLibraryPanelClick w =
     emit (ShowModal UnlinkLibraryPanelModal) (panelActionClicked ''unlink-from-library'' ''panel'' w)"
| "run_handler CreateLibraryPanelClick w =
     emit CreateLibraryPanel (panelActionClicked ''create-library-panel'' ''panel'' w)"
| "run_handler PanelTimeOverrideClick w =
     emit (ShowModal PanelTimeRangeDrawer) (panelActionClicked ''panel-time-override'' ''panel'' w)"
| "run_handler RemoveClick w =
     emit (Publish
            \<lparr>confirm_title = t ''panel.header-menu.remove-panel-title'' ''Remove panel'',
             confirm_text = t ''panel.header-menu.remove-panel-text'' ''Are you sure you want to remove this panel?'',
             confirm_text2 = t ''panel.header-menu.remove-panel-text2'' ''This action cannot be undone'',
             yesText = t ''panel.header-menu.remove-panel-confirm'' ''Remove'',
             confirm_icon = ''trash-alt'',
             onConfirm = RemoveConfirm\<rparr>)
       (panelActionClicked ''remove'' ''panel'' w)"
| "run_handler RemoveConfirm w = emit RemovePanel w"
| "run_handler NewAlertRuleClick w =
     (let w1 = panelActionClicked ''create-alert-rule'' ''panel'' w
      in if isDirty w1
         then emit SaveAndUpdate (w1\<lparr>onSaveCompleted := Some OnSuccess, onSaveError := Some OnError\<rparr>)
         else onSuccess w1)"
| "run_handler (ExtensionClick name) w = emit (ExtensionHandler name) w"

section \<open>Reading a menu\<close>

fun entries_of_item :: "PanelMenuItem \<Rightarrow> PanelMenuItem list"
  and entries_of_sub :: "SubMenu \<Rightarrow> PanelMenuItem list" where
  \<comment> \<open>an entry and every entry below it\<close>
  "entries_of_item (PanelMenuItem p None) = [PanelMenuItem p None]"
| "entries_of_item (PanelMenuItem p (Some s)) = PanelMenuItem p (Some s) # entries_of_sub s"
| "entries_of_sub (MenuItems xs) = concat (map entries_of_item xs)"
| "entries_of_sub (VizPanelLinksMenu ls) = []"

definition all_entries :: "PanelMenuItem list \<Rightarrow> PanelMenuItem list" where
  "all_entries xs = concat (map entries_of_item xs)"

fun item_levels :: "PanelMenuItem \<Rightarrow> nat"
  and sub_levels :: "SubMenu \<Rightarrow> nat" where
  \<comment> \<open>how many submenus are nested below an entry\<close>
  "item_levels (PanelMenuItem p None) = 0"
| "item_levels (PanelMenuItem p (Some s)) = Suc (sub_levels s)"
| "sub_levels (MenuItems xs) = fold max (map item_levels xs) 0"
| "sub_levels (VizPanelLinksMenu ls) = 0"

datatype skeleton = Skeleton string "skeleton list option"

fun item_skeleton :: "PanelMenuItem \<Rightarrow> skeleton"
  and sub_skeleton :: "SubMenu \<Rightarrow> skeleton list" where
  \<comment> \<open>the labels, their order and their nesting\<close>
  "item_skeleton (PanelMenuItem p None) = Skeleton (text p) None"
| "item_skeleton (PanelMenuItem p (Some s)) = Skeleton (text p) (Some (sub_skeleton s))"
| "sub_skeleton (MenuItems xs) = map item_skeleton xs"
| "sub_skeleton (VizPanelLinksMenu ls) = map (\<lambda>l. Skeleton (link_title l) None) ls"

section \<open>Example activations\<close>

text \<open>
  A pie chart panel with a table legend on an editable dashboard, with six plugin extensions
  and one panel link, and variations of it; a click-time state with unsaved changes.
\<close>

definition example_panel :: VizPanelState where
  "example_panel =
     \<lparr>pluginId = ''piechart'', title = ''Sales by region'',
      options = [(''legend'', JObj [(''displayMode'', JStr ''table''), (''placement'', JStr ''right'')]),
                 (''pieType'', JStr ''donut'')],
      fieldConfig = \<lparr>defaults = [(''unit'', JStr ''short''), (''custom'', JObj [(''hideFrom'', JBool False)])],
                     overrides = [JStr ''byName'']\<rparr>\<rparr>"

definition example_extensions :: "PluginExtension list" where
  "example_extensions =
     [\<lparr>ext_type = TypeComponent, ext_id = ''c1'', ext_title = ''Widget'', ext_description = ''A component'',
       ext_path = None, ext_category = None\<rparr>,
      \<lparr>ext_type = TypeLink, ext_id = ''l1'', ext_title = ''Declare incident'', ext_description = ''Open an incident'',
       ext_path = Some ''/a/incident'', ext_category = None\<rparr>,
      \<lparr>ext_type = TypeLink, ext_id = ''l2'', ext_title = [], ext_description = ''No title'',
       ext_path = Some ''/a/untitled'', ext_category = None\<rparr>,
      \<lparr>ext_type = TypeLink, ext_id = ''l3'', ext_title = ''Forecast'', ext_description = ''Run a forecast'',
       ext_path = Some ''/a/forecast'', ext_category = None\<rparr>,
      \<lparr>ext_type = TypeLink, ext_id = ''l4'', ext_title = ''Escalate'', ext_description = ''Page on-call'',
       ext_path = Some ''/a/oncall'', ext_category = None\<rparr>,
      \<lparr>ext_type = TypeLink, ext_id = ''l5'', ext_title = ''Objectives'', ext_description = ''Open the SLO'',
       ext_path = Some ''/a/slo'', ext_category = None\<rparr>]"

definition example_env :: Env where
  "example_env =
     \<lparr>panel = example_panel, panelId = 2, pathId = ''panel-2'', pluginVersion = None,
      queryRunner = Some \<lparr>queries = Some
          [\<lparr>refId = ''A'', datasource = Some \<lparr>ds_type = Some ''prometheus'', uid = Some ''prom''\<rparr>\<rparr>,
           \<lparr>refId = ''B'', datasource = None\<rparr>,
           \<lparr>refId = ''C'', datasource = Some \<lparr>ds_type = Some ''prometheus'', uid = Some ''prom''\<rparr>\<rparr>],
          timeRange = None, timeZone = None\<rparr>,
      isLibraryPanel = False, isRepeatCloneOrChildOf = False,
      dashboard = \<lparr>meta = \<lparr>isEmbedded = False, folderUid = None\<rparr>, editPanel = False, editable = True,
                   viewPanelScene = False, dash_uid = ''abc'', dash_title = ''Main'', tags = None\<rparr>,
      canEditDashboard = True, hasAccessToExplore = True,
      tryGetExploreUrlForPanel = Inr (Some ''/explore?left=1''),
      extensions = example_extensions,
      createExtensionSubMenu = (\<lambda>exts ctx placement.
         map (\<lambda>x. PanelMenuItem (blank\<lparr>text := ext_title x, href := ext_path x,
                                     onClick := Some (ExtensionClick (ext_id x))\<rparr>) None) exts),
      getCreateAlertInMenuAvailability = (\<lambda>args. Inr True),
      linksSupplier = Some (\<lambda>p. [\<lparr>link_title = ''Runbook'', link_href = ''https://example.org/runbook''\<rparr>]),
      getTimeZone = (\<lambda>tz. case tz of None \<Rightarrow> ''browser'' | Some z \<Rightarrow> z),
      location = \<lparr>pathname = ''/d/abc/main'', search = ''?orgId=1''\<rparr>,
      getUrlForPartial = (\<lambda>loc p. pathname loc),
      getEditPanelUrl = (\<lambda>i. ''/d/abc/main?editPanel=2'')\<rparr>"

definition example_items :: "PanelMenuItem list" where
  "example_items = items_of example_env (Some (exploreItem ''/explore?left=1'')) True"

definition library_env :: Env where
  "library_env = example_env\<lparr>isLibraryPanel := True, linksSupplier := None\<rparr>"

definition library_items :: "PanelMenuItem list" where
  "library_items = items_of library_env (Some (exploreItem ''/explore?left=1'')) True"

definition embedded_env :: Env where
  "embedded_env = example_env\<lparr>dashboard := (dashboard example_env)\<lparr>meta := \<lparr>isEmbedded = True, folderUid = None\<rparr>\<rparr>\<rparr>"

definition explore_rejected_env :: Env where
  "explore_rejected_env = example_env\<lparr>tryGetExploreUrlForPanel := Inl (Error ''Datasource not found'')\<rparr>"

definition relocated_env :: Env where
  "relocated_env = example_env\<lparr>location := \<lparr>pathname = ''/d/abc/main'', search = ''?orgId=1&viewPanel=panel-7''\<rparr>,
     getUrlForPartial := (\<lambda>loc p. pathname loc @ search loc)\<rparr>"

definition example_runtime :: Runtime where
  "example_runtime = \<lparr>menu = \<lparr>items = None\<rparr>, console_errors = []\<rparr>"

definition example_world :: World where
  "example_world =
     \<lparr>panel_state = example_panel, panel_id = 2, isDirty = True,
      onSaveCompleted = None, onSaveError = None,
      current_location = \<lparr>pathname = ''/d/abc/main'', search = ''?orgId=1''\<rparr>,
      ruleFormValues = ''{}'',
      renderUrl = (\<lambda>path params. path),
      getMessageFromError = (\<lambda>err. case err of Error m \<Rightarrow> m),
      effects = []\<rparr>"

section \<open>Shape of an activation\<close>

lemmas item_defs = viewItem_def editItem_def shareItem_def inspectItem_def inspectorSubMenu_def
  exitFullscreenItem_def convertToTableItem_def duplicateItem_def copyItem_def unlinkItem_def
  createLibraryPanelItem_def panelTimeOverrideItem_def panelLinksItem_def removeItem_def
  newAlertRuleItem_def getHelpItem_def moreItem_def exploreItem_def blank_def t_def

lemmas build_defs = asyncFunc_def getExploreMenuItem_def items_of_def subMenu_of_def
  moreSubMenu_of_def moreSubMenu_pushes_def isEditingPanel_def extensionSubMenu_def linkExtensions_def
  panel_links_def pieChartDisplayOptions_def js_get_def Let_def

lemmas example_defs = example_env_def example_panel_def example_extensions_def

lemma asyncFunc_settled:
  assumes "\<not> isEmbedded (meta (dashboard e))" and "snd (asyncFunc e) = Inr (Some its)"
  shows "\<exists>ex can. snd (getExploreMenuItem e) = Inr ex
           \<and> getCreateAlertInMenuAvailability e (createAlertArgs e) = Inr can
           \<and> its = items_of e ex can"
  using assms
  by (auto simp: asyncFunc_def Let_def split: prod.splits sum.splits if_splits)

lemma asyncFunc_embedded:
  assumes "isEmbedded (meta (dashboard e))" and "snd (asyncFunc e) = Inr (Some its)"
  shows "\<exists>u. u \<noteq> [] \<and> its = [exploreItem u]"
  using assms
  by (auto simp: asyncFunc_def getExploreMenuItem_def split: if_splits sum.splits option.splits)

lemma explore_result:
  "snd (getExploreMenuItem e) = Inr (Some item) \<Longrightarrow> \<exists>u. u \<noteq> [] \<and> item = exploreItem u"
  by (auto simp: getExploreMenuItem_def split: if_splits sum.splits option.splits)

lemma moreSubMenu_pushes_nonempty: "moreSubMenu_pushes e can \<noteq> []"
  by (simp add: moreSubMenu_pushes_def)

lemma moreSubMenu_of_eq: "moreSubMenu_of e can = moreSubMenu_pushes e can @ [getHelpItem]"
  using moreSubMenu_pushes_nonempty [of e can]
  by (simp add: moreSubMenu_of_def Let_def)

lemma last_items_of: "last (items_of e ex can) = moreItem (moreSubMenu_of e can)"
  using moreSubMenu_pushes_nonempty [of e can]
  by (simp add: items_of_def subMenu_of_def)

lemma butlast_items_of:
  "butlast (items_of e ex can) =
     (if \<not> isEditingPanel e then [viewItem e] else [])
     @ (if canEditDashboard e \<and> editable (dashboard e) \<and> \<not> isRepeatCloneOrChildOf e \<and> \<not> isEditingPanel e
        then [editItem e] else [])
     @ (if viewPanelScene (dashboard e) then [exitFullscreenItem] else [])
     @ (if \<not> isEditingPanel e \<and> canEditDashboard e \<and> \<not> isRepeatCloneOrChildOf e
        then [removeItem] else [])
     @ [shareItem]
     @ (case ex of None \<Rightarrow> [] | Some item \<Rightarrow> [item])
     @ [inspectItem e]
     @ extensionSubMenu e"
  using moreSubMenu_pushes_nonempty [of e can]
  by (simp add: items_of_def subMenu_of_def butlast_append)


lemma example_settles: "snd (asyncFunc example_env) = Inr (Some example_items)"
  by (simp add: example_items_def asyncFunc_def getExploreMenuItem_def example_env_def)

lemma library_settles: "snd (asyncFunc library_env) = Inr (Some library_items)"
  by (simp add: library_items_def library_env_def asyncFunc_def getExploreMenuItem_def example_env_def)

lemma example_not_embedded: "\<not> isEmbedded (meta (dashboard example_env))"
  by (simp add: example_env_def)

lemma example_last: "last example_items = moreItem (moreSubMenu_of example_env True)"
  by (simp add: example_items_def last_items_of)

section \<open>Nesting of the menu\<close>

lemma fold_max_le: "fold max xs a \<le> n \<longleftrightarrow> a \<le> n \<and> (\<forall>x \<in> set xs. x \<le> (n::nat))"
  by (induction xs arbitrary: a) auto

lemma more_levels:
  "sub_levels (MenuItems (moreSubMenu_of e can)) = (if panel_links e \<noteq> [] then 1 else 0)"
  by (simp add: moreSubMenu_of_eq moreSubMenu_pushes_def item_defs)

lemma moreItem_levels: "item_levels (moreItem (moreSubMenu_of e can)) = (if panel_links e \<noteq> [] then 2 else 1)"
  using more_levels [of e can] by (simp add: moreItem_def)

lemma butlast_levels:
  assumes "snd (getExploreMenuItem e) = Inr ex" and "\<forall>x \<in> set (extensionSubMenu e). item_levels x \<le> 1"
  shows "\<forall>x \<in> set (butlast (items_of e ex can)). item_levels x \<le> 1"
proof (cases ex)
  case None
  with assms(2) show ?thesis
    by (auto simp: butlast_items_of item_defs)
next
  case (Some item)
  with assms(1) obtain u where "item = exploreItem u"
    using explore_result by blast
  with Some assms(2) show ?thesis
    by (auto simp: butlast_items_of item_defs)
qed

lemma example_extension_levels: "map item_levels (extensionSubMenu example_env) = [0, 0, 0]"
  by (simp add: extensionSubMenu_def linkExtensions_def example_defs)

lemma library_extension_levels: "map item_levels (extensionSubMenu library_env) = [0, 0, 0]"
  by (simp add: extensionSubMenu_def linkExtensions_def library_env_def example_defs)

lemma example_levels: "map item_levels example_items = [0, 0, 0, 0, 0, 1, 0, 0, 0, 2]"
  by (simp add: example_items_def build_defs item_defs example_defs)

text \<open>
  Claim C1, as the code has it. The claim allows two levels: a top-level list whose entries
  may carry one submenu of entries without submenus. The code nests one level more: the
  entry \<open>Panel links\<close>, pushed onto the submenu of \<open>More...\<close> whenever the link
  supplier returns a link, carries a submenu of its own. So a menu is at most three levels
  deep. Provided every entry returned by \<open>createExtensionSubMenu\<close> nests at most one
  submenu level: every top-level entry has at most two levels below it and every one but
  the last at most one; without panel links every entry has at most one; on a dashboard
  that is not embedded and has panel links, the last entry (\<open>More...\<close>) has exactly two,
  and within its submenu only \<open>Panel links\<close> carries a submenu, the links menu.
\<close>

theorem menu_nesting:
  assumes "snd (asyncFunc e) = Inr (Some its)"
    and "\<forall>x \<in> set (extensionSubMenu e). item_levels x \<le> 1"
  shows "(\<forall>x \<in> set its. item_levels x \<le> 2)
     \<and> (\<forall>x \<in> set (butlast its). item_levels x \<le> 1)
     \<and> (panel_links e = [] \<longrightarrow> (\<forall>x \<in> set its. item_levels x \<le> 1))
     \<and> (\<not> isEmbedded (meta (dashboard e)) \<and> panel_links e \<noteq> [] \<longrightarrow>
          item_levels (last its) = 2
          \<and> (\<exists>more. subMenu (last its) = Some (MenuItems more)
                \<and> (\<forall>y \<in> set more. subMenu y \<noteq> None \<longrightarrow>
                      text (props y) = ''Panel links''
                      \<and> subMenu y = Some (VizPanelLinksMenu (panel_links e)))))"
proof (cases "isEmbedded (meta (dashboard e))")
  case True
  from asyncFunc_embedded [OF True assms(1)] obtain u where "its = [exploreItem u]"
    by blast
  with True show ?thesis
    by (simp add: exploreItem_def)
next
  case False
  from asyncFunc_settled [OF False assms(1)] obtain ex can
    where ex: "snd (getExploreMenuItem e) = Inr ex" and its: "its = items_of e ex can"
    by blast
  have ne: "its \<noteq> []"
    by (simp add: its items_of_def subMenu_of_def)
  have split: "its = butlast its @ [last its]"
    using ne by simp
  have b: "\<forall>x \<in> set (butlast its). item_levels x \<le> 1"
    unfolding its using butlast_levels [OF ex assms(2)] .
  have l: "item_levels (last its) = (if panel_links e \<noteq> [] then 2 else 1)"
    by (simp add: its last_items_of moreItem_levels)
  have m: "subMenu (last its) = Some (MenuItems (moreSubMenu_of e can))"
    by (simp add: its last_items_of moreItem_def)
  have p: "\<forall>y \<in> set (moreSubMenu_of e can). subMenu y \<noteq> None \<longrightarrow>
             text (props y) = ''Panel links'' \<and> subMenu y = Some (VizPanelLinksMenu (panel_links e))"
    by (auto simp: moreSubMenu_of_eq moreSubMenu_pushes_def item_defs)
  have all: "\<forall>x \<in> set its. x \<in> set (butlast its) \<or> x = last its"
    using split by (metis Un_iff empty_iff empty_set insert_iff list.simps(15) set_append)
  have 1: "\<forall>x \<in> set its. item_levels x \<le> 2"
    using all b l by (metis le_SucI one_add_one order_refl plus_1_eq_Suc one_le_numeral)
  have 3: "panel_links e = [] \<longrightarrow> (\<forall>x \<in> set its. item_levels x \<le> 1)"
    using all b l by (metis order_refl)
  from 1 b 3 l m p show ?thesis by auto
qed

text \<open>
  The example activation: the tenth entry is \<open>More...\<close>, and the sixth entry of its
  submenu carries the links menu, a third level.
\<close>

theorem menu_nesting_counterexample:
  "snd (asyncFunc example_env) = Inr (Some example_items)
   \<and> map item_levels example_items = [0, 0, 0, 0, 0, 1, 0, 0, 0, 2]
   \<and> subMenu (example_items ! 9) = Some (MenuItems (moreSubMenu_of example_env True))
   \<and> subMenu (moreSubMenu_of example_env True ! 5) =
       Some (VizPanelLinksMenu [\<lparr>link_title = ''Runbook'', link_href = ''https://example.org/runbook''\<rparr>])"
proof -
  have "subMenu (example_items ! 9) = Some (MenuItems (moreSubMenu_of example_env True))"
    by (simp add: example_items_def items_of_def subMenu_of_def isEditingPanel_def moreSubMenu_pushes_def
        extensionSubMenu_def linkExtensions_def moreItem_def example_defs)
  moreover have "subMenu (moreSubMenu_of example_env True ! 5) =
       Some (VizPanelLinksMenu [\<lparr>link_title = ''Runbook'', link_href = ''https://example.org/runbook''\<rparr>])"
    by (simp add: build_defs panelLinksItem_def example_defs)
  ultimately show ?thesis
    using example_settles example_levels by simp
qed

theorem menu_nesting_witness:
  "snd (asyncFunc example_env) = Inr (Some example_items)
   \<and> map item_levels (extensionSubMenu example_env) = [0, 0, 0]
   \<and> panel_links example_env \<noteq> []
   \<and> item_levels (last example_items) = 2
   \<and> snd (asyncFunc library_env) = Inr (Some library_items)
   \<and> panel_links library_env = []
   \<and> list_all (\<lambda>x. item_levels x \<le> 1) library_items"
proof -
  have a: "\<forall>x \<in> set (extensionSubMenu example_env). item_levels x \<le> 1"
    using example_extension_levels by (simp add: extensionSubMenu_def linkExtensions_def example_defs)
  have b: "\<forall>x \<in> set (extensionSubMenu library_env). item_levels x \<le> 1"
    using library_extension_levels by (simp add: extensionSubMenu_def linkExtensions_def library_env_def example_defs)
  have c: "panel_links example_env \<noteq> []" "panel_links library_env = []"
    by (simp_all add: panel_links_def library_env_def example_env_def)
  from menu_nesting [OF example_settles a] menu_nesting [OF library_settles b] c
    example_not_embedded example_settles library_settles example_extension_levels
  show ?thesis
    by (simp add: list_all_iff)
qed

section \<open>Labels\<close>

lemma set_all_entries_append: "set (all_entries (xs @ ys)) = set (all_entries xs) \<union> set (all_entries ys)"
  by (simp add: all_entries_def)

lemma in_entries_of_item: "x \<in> set (entries_of_item x)"
  by (cases x rule: entries_of_item.cases) simp_all

lemma in_all_entries: "x \<in> set xs \<Longrightarrow> x \<in> set (all_entries xs)"
  using in_entries_of_item by (auto simp: all_entries_def)

text \<open>
  Claim C2, as the code has it. Not every entry carries a non-empty text: the entry that
  removes the panel is built with the empty text ("No text, just icon"), the icon
  \<open>times\<close> and the tooltip \<open>Remove this panel\<close>. Provided the entries returned by
  \<open>createExtensionSubMenu\<close> carry a non-empty text, every entry of the menu, at every
  level, carries a non-empty text or is that remove entry; and the remove entry is in the
  menu exactly when the dashboard is not embedded, no panel is being edited, the user can
  edit the dashboard and the panel is not a read-only repeat.
\<close>

theorem entry_labels:
  assumes "snd (asyncFunc e) = Inr (Some its)"
    and "\<forall>x \<in> set (all_entries (extensionSubMenu e)). text (props x) \<noteq> []"
  shows "(\<forall>x \<in> set (all_entries its). text (props x) \<noteq> [] \<or> x = removeItem)
     \<and> text (props removeItem) = [] \<and> iconClassName (props removeItem) = Some ''times''
     \<and> tooltip (props removeItem) = Some ''Remove this panel''
     \<and> (removeItem \<in> set its \<longleftrightarrow>
          \<not> isEmbedded (meta (dashboard e)) \<and> \<not> editPanel (dashboard e) \<and> canEditDashboard e
          \<and> \<not> isRepeatCloneOrChildOf e)"
proof (cases "isEmbedded (meta (dashboard e))")
  case True
  from asyncFunc_embedded [OF True assms(1)] obtain u where "u \<noteq> []" "its = [exploreItem u]"
    by blast
  with True show ?thesis
    by (auto simp: all_entries_def item_defs)
next
  case False
  from asyncFunc_settled [OF False assms(1)] obtain ex can
    where ex: "snd (getExploreMenuItem e) = Inr ex" and its: "its = items_of e ex can"
    by blast
  have exl: "\<forall>x \<in> set (case ex of None \<Rightarrow> [] | Some item \<Rightarrow> [item]). text (props x) \<noteq> [] \<and> subMenu x = None"
    using explore_result [of e] ex by (auto simp: exploreItem_def blank_def t_def split: option.splits)
  have exe: "all_entries (case ex of None \<Rightarrow> [] | Some item \<Rightarrow> [item]) = (case ex of None \<Rightarrow> [] | Some item \<Rightarrow> [item])"
    using explore_result [of e] ex by (auto simp: all_entries_def exploreItem_def split: option.splits)
  have m: "\<forall>x \<in> set (all_entries (moreSubMenu_of e can)). text (props x) \<noteq> []"
    by (auto simp: moreSubMenu_of_eq moreSubMenu_pushes_def item_defs all_entries_def)
  have mm: "\<forall>x \<in> set (all_entries [moreItem (moreSubMenu_of e can)]). text (props x) \<noteq> []"
    using m by (auto simp: all_entries_def moreItem_def blank_def t_def)
  have s: "\<forall>x \<in> set (all_entries (subMenu_of e ex can)). text (props x) \<noteq> []"
    using exl mm assms(2) unfolding subMenu_of_def set_all_entries_append exe
    by (auto simp: all_entries_def item_defs)
  have 1: "\<forall>x \<in> set (all_entries its). text (props x) \<noteq> [] \<or> x = removeItem"
    using s unfolding its items_of_def set_all_entries_append
    by (auto simp: all_entries_def item_defs)
  have "text (props removeItem) = []"
    by (simp add: removeItem_def blank_def)
  then have sub_no: "removeItem \<notin> set (subMenu_of e ex can)"
    using s in_all_entries [of removeItem "subMenu_of e ex can"] by blast
  have others: "removeItem \<noteq> viewItem e" "removeItem \<noteq> editItem e" "removeItem \<noteq> exitFullscreenItem"
    by (simp_all add: item_defs)
  have 2: "removeItem \<in> set its \<longleftrightarrow>
          \<not> isEmbedded (meta (dashboard e)) \<and> \<not> editPanel (dashboard e) \<and> canEditDashboard e
          \<and> \<not> isRepeatCloneOrChildOf e"
    using sub_no others False by (auto simp: its items_of_def isEditingPanel_def)
  have 3: "text (props removeItem) = []" "iconClassName (props removeItem) = Some ''times''"
    "tooltip (props removeItem) = Some ''Remove this panel''"
    by (simp_all add: item_defs)
  from 1 2 3 show ?thesis by blast
qed

text \<open>
  The example activation: the third top-level entry is the remove entry, with the empty
  text.
\<close>

theorem entry_labels_counterexample:
  "snd (asyncFunc example_env) = Inr (Some example_items)
   \<and> example_items ! 2 = removeItem
   \<and> text (props (example_items ! 2)) = []"
  using example_settles
  by (simp add: example_items_def items_of_def isEditingPanel_def removeItem_def blank_def example_env_def)

theorem entry_labels_witness:
  "snd (asyncFunc example_env) = Inr (Some example_items)
   \<and> map (text \<circ> props) (all_entries (extensionSubMenu example_env)) = [''Declare incident'', ''Forecast'', ''Escalate'']
   \<and> removeItem \<in> set example_items
   \<and> list_all (\<lambda>x. text (props x) \<noteq> [] \<or> x = removeItem) (all_entries example_items)"
proof -
  have t: "map (text \<circ> props) (all_entries (extensionSubMenu example_env)) = [''Declare incident'', ''Forecast'', ''Escalate'']"
    by (simp add: all_entries_def extensionSubMenu_def linkExtensions_def blank_def example_defs)
  have a: "\<forall>x \<in> set (all_entries (extensionSubMenu example_env)). text (props x) \<noteq> []"
    by (simp add: all_entries_def extensionSubMenu_def linkExtensions_def blank_def example_defs)
  have f: "\<not> isEmbedded (meta (dashboard example_env)) \<and> \<not> editPanel (dashboard example_env)
      \<and> canEditDashboard example_env \<and> \<not> isRepeatCloneOrChildOf example_env"
    by (simp add: example_env_def)
  from entry_labels [OF example_settles a] f example_settles t show ?thesis
    by (simp add: list_all_iff)
qed

section \<open>Library panel entries\<close>



section \<open>Share and Inspect\<close>



section \<open>New alert rule\<close>



section \<open>Embedded dashboards\<close>

text \<open>
  Claim C6. On an embedded dashboard: if the user has access to Explore and an explore URL
  is obtained, the state of the menu is set to exactly the single \<open>Explore\<close> entry for
  that URL; otherwise (no access, no URL, an empty URL or a rejected fetch) the state of
  the menu is left as it was. So no entry other than \<open>Explore\<close> is ever set.
\<close>

theorem embedded_menu:
  assumes "isEmbedded (meta (dashboard e))"
  shows "(if hasAccessToExplore e \<and> (\<exists>u. tryGetExploreUrlForPanel e = Inr (Some u) \<and> u \<noteq> [])
          then \<exists>u. tryGetExploreUrlForPanel e = Inr (Some u)
                 \<and> menu (panelMenuBehavior e r) = (menu r)\<lparr>items := Some [exploreItem u]\<rparr>
                 \<and> text (props (exploreItem u)) = ''Explore'' \<and> href (props (exploreItem u)) = Some u
          else menu (panelMenuBehavior e r) = menu r)"
  using assms
  by (auto simp: panelMenuBehavior_def asyncFunc_def getExploreMenuItem_def exploreItem_def blank_def t_def
      split: sum.splits option.splits)

theorem embedded_menu_witness:
  "isEmbedded (meta (dashboard embedded_env))
   \<and> hasAccessToExplore embedded_env
   \<and> tryGetExploreUrlForPanel embedded_env = Inr (Some ''/explore?left=1'')
   \<and> menu (panelMenuBehavior embedded_env example_runtime) = \<lparr>items = Some [exploreItem ''/explore?left=1'']\<rparr>
   \<and> isEmbedded (meta (dashboard (embedded_env\<lparr>hasAccessToExplore := False\<rparr>)))
   \<and> menu (panelMenuBehavior (embedded_env\<lparr>hasAccessToExplore := False\<rparr>) example_runtime) = menu example_runtime"
proof -
  have a: "isEmbedded (meta (dashboard embedded_env))"
    "isEmbedded (meta (dashboard (embedded_env\<lparr>hasAccessToExplore := False\<rparr>)))"
    by (simp_all add: embedded_env_def)
  have b: "hasAccessToExplore embedded_env"
    "tryGetExploreUrlForPanel embedded_env = Inr (Some ''/explore?left=1'')"
    by (simp_all add: embedded_env_def example_env_def)
  from embedded_menu [OF a(1), of example_runtime] embedded_menu [OF a(2), of example_runtime] a b
  show ?thesis
    by (simp add: example_runtime_def)
qed

section \<open>Convert to table\<close>

text \<open>
  Claim C7. The entry \<open>Convert to table\<close> is in the submenu of \<open>More...\<close> exactly when
  the plugin id is \<open>piechart\<close> and the display mode of the legend is \<open>table\<close>, and it
  is the only entry there with its handler. The handler sets the plugin id to \<open>table\<close>;
  removes the legend option (the object literal sets the key \<open>legend\<close> to \<open>undefined\<close>,
  so the option reads as \<open>undefined\<close>) and leaves every other option as it was; sets
  \<open>displayMode\<close> to \<open>auto\<close> in \<open>fieldConfig.defaults.custom\<close> and leaves every other
  key of \<open>custom\<close>, every other key of \<open>defaults\<close>, the overrides and the title as they
  were.
\<close>

theorem convert_to_table:
  assumes "\<not> isEmbedded (meta (dashboard e))" and "snd (asyncFunc e) = Inr (Some its)"
  shows "(\<exists>more. subMenu (last its) = Some (MenuItems more)
            \<and> (convertToTableItem \<in> set more \<longleftrightarrow>
                 pluginId (panel e) = ''piechart''
                 \<and> optional_get (js_get (options (panel e)) ''legend'') ''displayMode'' = JStr ''table'')
            \<and> (\<forall>x \<in> set more. onClick (props x) = Some ConvertToTableClick \<longrightarrow> x = convertToTableItem))
     \<and> text (props convertToTableItem) = ''Convert to table''
     \<and> onClick (props convertToTableItem) = Some ConvertToTableClick
     \<and> (\<forall>w. let st = panel_state w; st' = panel_state (run_handler ConvertToTableClick w)
          in pluginId st' = ''table''
           \<and> js_get (options st') ''legend'' = JUndefined
           \<and> (\<forall>k. k \<noteq> ''legend'' \<longrightarrow> map_of (options st') k = map_of (options st) k)
           \<and> (\<exists>custom'. map_of (defaults (fieldConfig st')) ''custom'' = Some (JObj custom')
                 \<and> map_of custom' ''displayMode'' = Some (JStr ''auto'')
                 \<and> (\<forall>k. k \<noteq> ''displayMode'' \<longrightarrow>
                       map_of custom' k = map_of (spread (js_get (defaults (fieldConfig st)) ''custom'')) k))
           \<and> (\<forall>k. k \<noteq> ''custom'' \<longrightarrow>
                 map_of (defaults (fieldConfig st')) k = map_of (defaults (fieldConfig st)) k)
           \<and> overrides (fieldConfig st') = overrides (fieldConfig st)
           \<and> title st' = title st)"
proof -
  from asyncFunc_settled [OF assms(1,2)] obtain ex can where its: "its = items_of e ex can"
    by blast
  let ?more = "moreSubMenu_of e can"
  have 1: "subMenu (last its) = Some (MenuItems ?more)"
    by (simp add: its last_items_of moreItem_def)
  have 2: "convertToTableItem \<in> set ?more \<longleftrightarrow>
     pluginId (panel e) = ''piechart''
     \<and> optional_get (js_get (options (panel e)) ''legend'') ''displayMode'' = JStr ''table''"
    by (simp add: moreSubMenu_of_eq moreSubMenu_pushes_def pieChartDisplayOptions_def item_defs)
  have 3: "\<forall>x \<in> set ?more. onClick (props x) = Some ConvertToTableClick \<longrightarrow> x = convertToTableItem"
    by (auto simp: moreSubMenu_of_eq moreSubMenu_pushes_def item_defs)
  have 4: "text (props convertToTableItem) = ''Convert to table''"
    "onClick (props convertToTableItem) = Some ConvertToTableClick"
    by (simp_all add: item_defs)
  have 5: "let st = panel_state w; st' = panel_state (run_handler ConvertToTableClick w)
          in pluginId st' = ''table''
           \<and> js_get (options st') ''legend'' = JUndefined
           \<and> (\<forall>k. k \<noteq> ''legend'' \<longrightarrow> map_of (options st') k = map_of (options st) k)
           \<and> (\<exists>custom'. map_of (defaults (fieldConfig st')) ''custom'' = Some (JObj custom')
                 \<and> map_of custom' ''displayMode'' = Some (JStr ''auto'')
                 \<and> (\<forall>k. k \<noteq> ''displayMode'' \<longrightarrow>
                       map_of custom' k = map_of (spread (js_get (defaults (fieldConfig st)) ''custom'')) k))
           \<and> (\<forall>k. k \<noteq> ''custom'' \<longrightarrow>
                 map_of (defaults (fieldConfig st')) k = map_of (defaults (fieldConfig st)) k)
           \<and> overrides (fieldConfig st') = overrides (fieldConfig st)
           \<and> title st' = title st" for w
    by (simp add: Let_def convertPieChartToTable_def panelActionClicked_def emit_def js_get_def
        update_conv')
  from 1 2 3 4 5 show ?thesis by blast
qed

theorem convert_to_table_witness:
  "\<not> isEmbedded (meta (dashboard example_env))
   \<and> snd (asyncFunc example_env) = Inr (Some example_items)
   \<and> pluginId (panel example_env) = ''piechart''
   \<and> optional_get (js_get (options (panel example_env)) ''legend'') ''displayMode'' = JStr ''table''
   \<and> convertToTableItem \<in> set (moreSubMenu_of example_env True)
   \<and> pluginId (panel_state (run_handler ConvertToTableClick example_world)) = ''table''
   \<and> options (panel_state (run_handler ConvertToTableClick example_world)) =
        [(''legend'', JUndefined), (''pieType'', JStr ''donut'')]
   \<and> map_of (options (panel_state (run_handler ConvertToTableClick example_world))) ''pieType'' =
        map_of (options (panel_state example_world)) ''pieType''
   \<and> fieldConfig (panel_state (run_handler ConvertToTableClick example_world)) =
        \<lparr>defaults = [(''unit'', JStr ''short''),
                     (''custom'', JObj [(''hideFrom'', JBool False), (''displayMode'', JStr ''auto'')])],
         overrides = [JStr ''byName'']\<rparr>
   \<and> map_of (defaults (fieldConfig (panel_state (run_handler ConvertToTableClick example_world)))) ''unit'' =
        map_of (defaults (fieldConfig (panel_state example_world))) ''unit''"
proof -
  have f: "pluginId (panel example_env) = ''piechart''"
    "optional_get (js_get (options (panel example_env)) ''legend'') ''displayMode'' = JStr ''table''"
    by (simp_all add: js_get_def example_defs)
  note inst = convert_to_table [OF example_not_embedded example_settles]
  from inst f have m: "convertToTableItem \<in> set (moreSubMenu_of example_env True)"
    by (simp add: example_last moreItem_def)
  from inst have h: "\<forall>w. (\<forall>k. k \<noteq> ''legend'' \<longrightarrow>
        map_of (options (panel_state (run_handler ConvertToTableClick w))) k = map_of (options (panel_state w)) k)
      \<and> (\<forall>k. k \<noteq> ''custom'' \<longrightarrow>
        map_of (defaults (fieldConfig (panel_state (run_handler ConvertToTableClick w)))) k
          = map_of (defaults (fieldConfig (panel_state w))) k)
      \<and> pluginId (panel_state (run_handler ConvertToTableClick w)) = ''table''"
    unfolding Let_def by blast
  have 1: "map_of (options (panel_state (run_handler ConvertToTableClick example_world))) ''pieType'' =
        map_of (options (panel_state example_world)) ''pieType''"
    using h by simp
  have 2: "map_of (defaults (fieldConfig (panel_state (run_handler ConvertToTableClick example_world)))) ''unit'' =
        map_of (defaults (fieldConfig (panel_state example_world))) ''unit''"
    using h by simp
  have 3: "pluginId (panel_state (run_handler ConvertToTableClick example_world)) = ''table''"
    using h by simp
  have 4: "options (panel_state (run_handler ConvertToTableClick example_world)) =
        [(''legend'', JUndefined), (''pieType'', JStr ''donut'')]"
    "fieldConfig (panel_state (run_handler ConvertToTableClick example_world)) =
        \<lparr>defaults = [(''unit'', JStr ''short''),
                     (''custom'', JObj [(''hideFrom'', JBool False), (''displayMode'', JStr ''auto'')])],
         overrides = [JStr ''byName'']\<rparr>"
    by (simp_all add: convertPieChartToTable_def panelActionClicked_def emit_def js_get_def Let_def
        example_world_def example_panel_def)
  from example_not_embedded example_settles f m 1 2 3 4 show ?thesis by simp
qed

section \<open>Plugin extension links\<close>

text \<open>
  Claim C8. At most three plugin extensions are handed on to the menu; each of them is one
  of the registered extensions, of link type, with a non-empty title and a non-empty
  description; the extension entries are what \<open>createExtensionSubMenu\<close> makes of these,
  and the activation depends on the registered extensions only through them.
\<close>

theorem extension_links:
  "length (linkExtensions e) \<le> 3
   \<and> (\<forall>x \<in> set (linkExtensions e).
         x \<in> set (extensions e) \<and> ext_type x = TypeLink \<and> ext_title x \<noteq> [] \<and> ext_description x \<noteq> [])
   \<and> extensionSubMenu e = createExtensionSubMenu e (linkExtensions e) (extension_context e) ''top''
   \<and> (\<forall>xs. linkExtensions (e\<lparr>extensions := xs\<rparr>) = linkExtensions e \<longrightarrow>
          asyncFunc (e\<lparr>extensions := xs\<rparr>) = asyncFunc e)"
proof -
  have 1: "length (linkExtensions e) \<le> 3"
    by (simp add: linkExtensions_def)
  have 2: "\<forall>x \<in> set (linkExtensions e).
         x \<in> set (extensions e) \<and> ext_type x = TypeLink \<and> ext_title x \<noteq> [] \<and> ext_description x \<noteq> []"
    by (auto simp: linkExtensions_def dest: in_set_takeD)
  have 3: "asyncFunc (e\<lparr>extensions := xs\<rparr>) = asyncFunc e"
    if eq: "linkExtensions (e\<lparr>extensions := xs\<rparr>) = linkExtensions e" for xs
  proof -
    let ?e = "e\<lparr>extensions := xs\<rparr>"
    have a: "getExploreMenuItem ?e = getExploreMenuItem e"
      by (simp add: getExploreMenuItem_def)
    have b: "createAlertArgs ?e = createAlertArgs e"
      by (simp add: createAlertArgs_def getDataSources_def panel_queries_def)
    have c: "extensionSubMenu ?e = extensionSubMenu e"
      by (simp add: extensionSubMenu_def eq extension_context_def panel_queries_def)
    have pl: "panel_links ?e = panel_links e"
      by (simp add: panel_links_def split: option.splits)
    have d: "moreSubMenu_pushes ?e can = moreSubMenu_pushes e can" for can
      by (simp add: moreSubMenu_pushes_def pieChartDisplayOptions_def pl)
    have f: "items_of ?e ex can = items_of e ex can" for ex can
      by (simp add: items_of_def subMenu_of_def moreSubMenu_of_def c d isEditingPanel_def
          viewItem_def editItem_def inspectItem_def inspectorSubMenu_def)
    show ?thesis
      by (simp add: asyncFunc_def a b f Let_def split: prod.splits sum.splits option.splits)
  qed
  from 1 2 3 show ?thesis
    by (simp add: extensionSubMenu_def)
qed

theorem extension_links_witness:
  "map ext_id (extensions example_env) = [''c1'', ''l1'', ''l2'', ''l3'', ''l4'', ''l5'']
   \<and> map ext_id (linkExtensions example_env) = [''l1'', ''l3'', ''l4'']
   \<and> linkExtensions (example_env\<lparr>extensions := take 5 example_extensions\<rparr>) = linkExtensions example_env
   \<and> asyncFunc (example_env\<lparr>extensions := take 5 example_extensions\<rparr>) = asyncFunc example_env"
proof -
  have a: "map ext_id (extensions example_env) = [''c1'', ''l1'', ''l2'', ''l3'', ''l4'', ''l5'']"
    "map ext_id (linkExtensions example_env) = [''l1'', ''l3'', ''l4'']"
    by (simp_all add: linkExtensions_def example_defs)
  have b: "linkExtensions (example_env\<lparr>extensions := take 5 example_extensions\<rparr>) = linkExtensions example_env"
    by (simp add: linkExtensions_def example_defs)
  from extension_links [of example_env] b a show ?thesis
    by blast
qed

section \<open>Awaited calls\<close>

text \<open>
  Claim C9, as the code has it. The explore URL is fetched at most once, and not at all
  without access to Explore. The availability check is not made exactly once on every
  dashboard that is not embedded: when the fetch of the explore URL rejects, the activation
  stops there and the check is never made. It is made exactly once, with the arguments
  built from the panel and the dashboard, when the dashboard is not embedded and the fetch
  did not reject, and never otherwise; no other awaited call is made, and none is retried.
\<close>

theorem awaited_calls:
  "count_list (fst (asyncFunc e)) TryGetExploreUrlForPanel \<le> 1
   \<and> (\<not> hasAccessToExplore e \<longrightarrow> count_list (fst (asyncFunc e)) TryGetExploreUrlForPanel = 0)
   \<and> count_list (fst (asyncFunc e)) (GetCreateAlertInMenuAvailability (createAlertArgs e)) =
       (if isEmbedded (meta (dashboard e))
           \<or> (hasAccessToExplore e \<and> (\<exists>err. tryGetExploreUrlForPanel e = Inl err))
        then 0 else 1)
   \<and> (\<forall>c \<in> set (fst (asyncFunc e)).
         c = TryGetExploreUrlForPanel \<or> c = GetCreateAlertInMenuAvailability (createAlertArgs e))"
  by (auto simp: asyncFunc_def getExploreMenuItem_def Let_def split: sum.splits option.splits)

text \<open>
  A dashboard that is not embedded, with access to Explore, where the fetch of the explore
  URL rejects: the only awaited call is the fetch.
\<close>

theorem awaited_calls_counterexample:
  "\<not> isEmbedded (meta (dashboard explore_rejected_env))
   \<and> fst (asyncFunc explore_rejected_env) = [TryGetExploreUrlForPanel]
   \<and> snd (asyncFunc explore_rejected_env) = Inl (Error ''Datasource not found'')
   \<and> count_list (fst (asyncFunc explore_rejected_env))
        (GetCreateAlertInMenuAvailability (createAlertArgs explore_rejected_env)) = 0"
  by (simp add: asyncFunc_def getExploreMenuItem_def explore_rejected_env_def example_env_def)

theorem awaited_calls_witness:
  "fst (asyncFunc example_env) =
     [TryGetExploreUrlForPanel, GetCreateAlertInMenuAvailability (createAlertArgs example_env)]
   \<and> datasources (createAlertArgs example_env) = [''prom'']
   \<and> count_list (fst (asyncFunc example_env)) TryGetExploreUrlForPanel = 1
   \<and> count_list (fst (asyncFunc example_env)) (GetCreateAlertInMenuAvailability (createAlertArgs example_env)) = 1
   \<and> \<not> hasAccessToExplore (embedded_env\<lparr>hasAccessToExplore := False\<rparr>)
   \<and> count_list (fst (asyncFunc (embedded_env\<lparr>hasAccessToExplore := False\<rparr>))) TryGetExploreUrlForPanel = 0
   \<and> count_list (fst (asyncFunc embedded_env)) (GetCreateAlertInMenuAvailability (createAlertArgs embedded_env)) = 0"
proof -
  have a: "fst (asyncFunc example_env) =
     [TryGetExploreUrlForPanel, GetCreateAlertInMenuAvailability (createAlertArgs example_env)]"
    by (simp add: asyncFunc_def getExploreMenuItem_def Let_def example_env_def)
  have b: "datasources (createAlertArgs example_env) = [''prom'']"
    by (simp add: createAlertArgs_def getDataSources_def example_env_def)
  have c: "\<not> isEmbedded (meta (dashboard example_env))" "hasAccessToExplore example_env"
    "tryGetExploreUrlForPanel example_env = Inr (Some ''/explore?left=1'')"
    "\<not> hasAccessToExplore (embedded_env\<lparr>hasAccessToExplore := False\<rparr>)"
    "isEmbedded (meta (dashboard embedded_env))"
    by (simp_all add: embedded_env_def example_env_def)
  from awaited_calls [of example_env] awaited_calls [of "embedded_env\<lparr>hasAccessToExplore := False\<rparr>"]
    awaited_calls [of embedded_env] a b c
  show ?thesis by simp
qed

section \<open>Determinism\<close>

lemma skeleton_navigation:
  "map_sum id (map_option (map item_skeleton))
     (snd (asyncFunc (e\<lparr>location := l, getUrlForPartial := g, getEditPanelUrl := h\<rparr>))) =
   map_sum id (map_option (map item_skeleton)) (snd (asyncFunc e))"
proof -
  let ?e = "e\<lparr>location := l, getUrlForPartial := g, getEditPanelUrl := h\<rparr>"
  have a: "getExploreMenuItem ?e = getExploreMenuItem e"
    by (simp add: getExploreMenuItem_def)
  have b: "createAlertArgs ?e = createAlertArgs e"
    by (simp add: createAlertArgs_def getDataSources_def panel_queries_def)
  have c: "extensionSubMenu ?e = extensionSubMenu e"
    by (simp add: extensionSubMenu_def linkExtensions_def extension_context_def panel_queries_def)
  have pl: "panel_links ?e = panel_links e"
    by (simp add: panel_links_def split: option.splits)
  have d: "moreSubMenu_pushes ?e can = moreSubMenu_pushes e can" for can
    by (simp add: moreSubMenu_pushes_def pieChartDisplayOptions_def pl)
  have f: "map item_skeleton (items_of ?e ex can) = map item_skeleton (items_of e ex can)" for ex can
    by (simp add: items_of_def subMenu_of_def moreSubMenu_of_def c d isEditingPanel_def
        viewItem_def editItem_def inspectItem_def inspectorSubMenu_def)
  show ?thesis
    by (simp add: asyncFunc_def a b f Let_def split: prod.splits sum.splits option.splits)
qed

lemma calls_navigation:
  "fst (asyncFunc (e\<lparr>location := l, getUrlForPartial := g, getEditPanelUrl := h\<rparr>)) = fst (asyncFunc e)"
proof -
  let ?e = "e\<lparr>location := l, getUrlForPartial := g, getEditPanelUrl := h\<rparr>"
  have a: "getExploreMenuItem ?e = getExploreMenuItem e"
    by (simp add: getExploreMenuItem_def)
  have b: "createAlertArgs ?e = createAlertArgs e"
    by (simp add: createAlertArgs_def getDataSources_def panel_queries_def)
  show ?thesis
    by (simp add: asyncFunc_def a b Let_def split: prod.splits sum.splits option.splits)
qed

text \<open>
  Claim C10. Two activations with the same panel state, dashboard state, capability flags
  and collaborator responses (explore URL, plugin extensions, alert availability, link
  supplier) produce menus with the same entries: the same labels, in the same order, with
  the same nesting; and they make the same awaited calls. Nothing else the activation reads
  (the current location and the URL helpers, which only shape the link targets) has a part
  in that.
\<close>

theorem menu_deterministic:
  assumes "panel e1 = panel e2" and "panelId e1 = panelId e2" and "pathId e1 = pathId e2"
    and "pluginVersion e1 = pluginVersion e2" and "queryRunner e1 = queryRunner e2"
    and "isLibraryPanel e1 = isLibraryPanel e2"
    and "isRepeatCloneOrChildOf e1 = isRepeatCloneOrChildOf e2"
    and "dashboard e1 = dashboard e2"
    and "canEditDashboard e1 = canEditDashboard e2" and "hasAccessToExplore e1 = hasAccessToExplore e2"
    and "tryGetExploreUrlForPanel e1 = tryGetExploreUrlForPanel e2"
    and "extensions e1 = extensions e2" and "createExtensionSubMenu e1 = createExtensionSubMenu e2"
    and "getCreateAlertInMenuAvailability e1 = getCreateAlertInMenuAvailability e2"
    and "linksSupplier e1 = linksSupplier e2" and "getTimeZone e1 = getTimeZone e2"
  shows "map_sum id (map_option (map item_skeleton)) (snd (asyncFunc e1)) =
         map_sum id (map_option (map item_skeleton)) (snd (asyncFunc e2))
     \<and> fst (asyncFunc e1) = fst (asyncFunc e2)"
proof -
  have eq: "e1 = e2\<lparr>location := location e1, getUrlForPartial := getUrlForPartial e1,
                   getEditPanelUrl := getEditPanelUrl e1\<rparr>"
    using assms by (cases e1, cases e2) simp
  have 1: "map_sum id (map_option (map item_skeleton)) (snd (asyncFunc e1)) =
         map_sum id (map_option (map item_skeleton)) (snd (asyncFunc e2))"
    by (subst eq) (rule skeleton_navigation)
  have 2: "fst (asyncFunc e1) = fst (asyncFunc e2)"
    by (subst eq) (rule calls_navigation)
  from 1 2 show ?thesis by blast
qed

theorem menu_deterministic_witness:
  "panel example_env = panel relocated_env \<and> dashboard example_env = dashboard relocated_env
   \<and> tryGetExploreUrlForPanel example_env = tryGetExploreUrlForPanel relocated_env
   \<and> location example_env \<noteq> location relocated_env
   \<and> map_sum id (map_option (map item_skeleton)) (snd (asyncFunc example_env)) =
       map_sum id (map_option (map item_skeleton)) (snd (asyncFunc relocated_env))
   \<and> fst (asyncFunc example_env) = fst (asyncFunc relocated_env)"
proof -
  have "location example_env \<noteq> location relocated_env"
    by (simp add: relocated_env_def example_env_def)
  with menu_deterministic [of example_env relocated_env] show ?thesis
    by (simp add: relocated_env_def)
qed

end
